theory Spec2Isabelle
  imports Main "HOL-Library.Sublist"
begin

section \<open>The Tcl application shell: \<open>tclAppInit.c\<close> and \<open>tclPlatDecls.h\<close>\<close>

text \<open>
  \<open>tclAppInit.c\<close> holds two functions, \<open>main\<close> and \<open>Tcl_AppInit\<close>. Both only call
  into the Tcl library, which is not part of the sources: the library is a parameter
  of the model (the record \<open>tcl\<close>), and so are the three constants of \<open>tcl.h\<close> the
  file uses. The preprocessor symbols that select the conditionally compiled lines
  are the fields of the record \<open>build\<close>.
\<close>

subsection \<open>The library the file is linked against\<close>

text \<open>
  The \<open>Tcl_PackageInitProc\<close> symbols the file declares \<open>extern\<close> (lines 21-24 and 30)
  together with \<open>Tcl_Init\<close> of \<open>tcl.h\<close>. A value of this type is the function
  pointer: \<open>Tcl_StaticPackage\<close> receives two of them.
\<close>

datatype package_init_proc =
    Tcl_Init
  | Tclxttest_Init
  | Tcltest_Init
  | TclObjTest_Init
  | Procbodytest_Init
  | Procbodytest_SafeInit

text \<open>
  \<open>'i\<close> is everything behind \<open>Tcl_Interp *interp\<close> that the library can read and
  write. \<open>package_init L p\<close> is the function the linker binds to the symbol \<open>p\<close>: it
  returns the completion code and the interpreter as it leaves it. \<open>Tcl_StaticPackage\<close>
  returns \<open>void\<close>; \<open>Tcl_SetVar\<close> returns a \<open>const char *\<close>, \<open>NULL\<close> (here \<open>None\<close>) when the
  variable could not be set. \<open>Tcl_Main\<close> may not return (it ends the process): \<open>None\<close>
  is not returning.
\<close>

record 'i tcl =
  TCL_OK :: int
  TCL_ERROR :: int
  TCL_GLOBAL_ONLY :: int
  package_init :: "package_init_proc \<Rightarrow> 'i \<Rightarrow> int \<times> 'i"
  Tcl_StaticPackage ::
    "'i \<Rightarrow> string \<Rightarrow> package_init_proc \<Rightarrow> package_init_proc option \<Rightarrow> 'i"
  Tcl_SetVar :: "'i \<Rightarrow> string \<Rightarrow> string \<Rightarrow> int \<Rightarrow> string option \<times> 'i"
  XtToolkitInitialize :: "'i \<Rightarrow> 'i"
  Tcl_Main :: "int \<Rightarrow> string list \<Rightarrow> ('i \<Rightarrow> int \<times> 'i) \<Rightarrow> 'i \<Rightarrow> 'i option"

text \<open>
  The preprocessor symbols of \<open>tclAppInit.c\<close>. \<open>TCL_LOCAL_APPINIT\<close> and
  \<open>TCL_LOCAL_MAIN_HOOK\<close> name functions when they are defined (\<open>None\<close>: not defined).
  The hook receives \<open>&argc\<close> and \<open>&argv\<close>, so it returns them as it leaves them, after
  its \<open>int\<close> result.
\<close>

record 'i build =
  TCL_TEST :: bool
  TCL_XT_TEST :: bool
  DJGPP :: bool
  TCL_LOCAL_APPINIT :: "('i \<Rightarrow> int \<times> 'i) option"
  TCL_LOCAL_MAIN_HOOK ::
    "(int \<Rightarrow> string list \<Rightarrow> 'i \<Rightarrow> int \<times> int \<times> string list \<times> 'i) option"

subsection \<open>The state of a run of \<open>Tcl_AppInit\<close>\<close>

text \<open>
  One entry per library call \<open>Tcl_AppInit\<close> makes, in the order of the calls, with the
  arguments passed and (where there is one) the value returned.
\<close>

datatype call =
    Init_call package_init_proc int
  | Static_package_call string package_init_proc "package_init_proc option"
  | Set_var_call string string int "string option"

record 'i world =
  interp :: 'i
  calls :: "call list"

text \<open>
  A statement either returns from the function with a value (\<open>Some r\<close>) or falls
  through to the next statement (\<open>None\<close>).
\<close>

type_synonym 'i stmt = "'i world \<Rightarrow> int option \<times> 'i world"

text \<open>\<^verbatim>\<open>if (P_Init(interp) == TCL_ERROR) { return TCL_ERROR; }\<close>\<close>

definition init_or_return :: "'i tcl \<Rightarrow> package_init_proc \<Rightarrow> 'i stmt" where
  "init_or_return L p w =
     (let (r, i') = package_init L p (interp w);
          w' = \<lparr>interp = i', calls = calls w @ [Init_call p r]\<rparr>
      in if r = TCL_ERROR L then (Some (TCL_ERROR L), w') else (None, w'))"

text \<open>\<^verbatim>\<open>Tcl_StaticPackage(interp, name, initProc, safeInitProc);\<close>\<close>

definition static_package ::
  "'i tcl \<Rightarrow> string \<Rightarrow> package_init_proc \<Rightarrow> package_init_proc option \<Rightarrow> 'i stmt" where
  "static_package L name p q w =
     (None, \<lparr>interp = Tcl_StaticPackage L (interp w) name p q,
             calls = calls w @ [Static_package_call name p q]\<rparr>)"

text \<open>\<^verbatim>\<open>Tcl_SetVar(interp, name, value, flags);\<close> as a statement: the result is dropped.\<close>

definition set_var :: "'i tcl \<Rightarrow> string \<Rightarrow> string \<Rightarrow> int \<Rightarrow> 'i stmt" where
  "set_var L name val flags w =
     (let (res, i') = Tcl_SetVar L (interp w) name val flags
      in (None, \<lparr>interp = i', calls = calls w @ [Set_var_call name val flags res]\<rparr>))"

text \<open>
  A function body: the statements in order, then the final \<^verbatim>\<open>return r;\<close>. The first
  statement that returns ends the body.
\<close>

fun body :: "'i stmt list \<Rightarrow> int \<Rightarrow> 'i world \<Rightarrow> int \<times> 'i world" where
  "body [] r w = (r, w)"
| "body (s # ss) r w =
     (case s w of
        (Some e, w') \<Rightarrow> (e, w')
      | (None, w') \<Rightarrow> body ss r w')"

text \<open>\<^verbatim>\<open>#ifdef c ... #endif\<close>: the lines are compiled only when \<open>c\<close> is defined.\<close>

definition ifdef :: "bool \<Rightarrow> 'a list \<Rightarrow> 'a list" where
  "ifdef c lines = (if c then lines else [])"

subsection \<open>\<open>Tcl_AppInit\<close> (lines 109-169)\<close>

definition Tcl_AppInit :: "'i build \<Rightarrow> 'i tcl \<Rightarrow> 'i world \<Rightarrow> int \<times> 'i world" where
  "Tcl_AppInit B L =
     body
       ([init_or_return L Tcl_Init] @
        ifdef (TCL_TEST B)
          (ifdef (TCL_XT_TEST B)
             [init_or_return L Tclxttest_Init] @
           [init_or_return L Tcltest_Init,
            static_package L ''Tcltest'' Tcltest_Init None,
            init_or_return L TclObjTest_Init,
            init_or_return L Procbodytest_Init,
            static_package L ''procbodytest'' Procbodytest_Init
              (Some Procbodytest_SafeInit)]) @
        [if DJGPP B
         then set_var L ''tcl_rcFileName'' ''~/tclsh.rc'' (TCL_GLOBAL_ONLY L)
         else set_var L ''tcl_rcFileName'' ''~/.tclshrc'' (TCL_GLOBAL_ONLY L)])
       (TCL_OK L)"

subsection \<open>\<open>main\<close> (lines 50-88)\<close>

text \<open>
  \<open>Tcl_AppInit\<close> as a function pointer: what a caller that holds the pointer gets is
  the completion code and the interpreter.
\<close>

definition Tcl_AppInit_proc :: "'i build \<Rightarrow> 'i tcl \<Rightarrow> 'i \<Rightarrow> int \<times> 'i" where
  "Tcl_AppInit_proc B L i =
     (let (r, w) = Tcl_AppInit B L \<lparr>interp = i, calls = []\<rparr> in (r, interp w))"

text \<open>
  Lines 62-65: \<^verbatim>\<open>#ifndef TCL_LOCAL_APPINIT\<close>, \<^verbatim>\<open>#define TCL_LOCAL_APPINIT Tcl_AppInit\<close>.
\<close>

definition TCL_LOCAL_APPINIT_proc :: "'i build \<Rightarrow> 'i tcl \<Rightarrow> 'i \<Rightarrow> int \<times> 'i" where
  "TCL_LOCAL_APPINIT_proc B L =
     (case TCL_LOCAL_APPINIT B of
        None \<Rightarrow> Tcl_AppInit_proc B L
      | Some f \<Rightarrow> f)"

text \<open>
  \<open>main\<close> returns \<open>None\<close> when it does not return, and otherwise its \<open>int\<close> result with
  the state it leaves. The result of the hook is dropped; what the hook wrote through
  \<open>&argc\<close> and \<open>&argv\<close> is what \<open>Tcl_Main\<close> receives.
\<close>

definition main :: "'i build \<Rightarrow> 'i tcl \<Rightarrow> int \<Rightarrow> string list \<Rightarrow> 'i \<Rightarrow> (int \<times> 'i) option" where
  "main B L argc argv i0 =
     (let i1 = (if TCL_XT_TEST B then XtToolkitInitialize L i0 else i0);
          (argc', argv', i2) =
            (case TCL_LOCAL_MAIN_HOOK B of
               None \<Rightarrow> (argc, argv, i1)
             | Some hook \<Rightarrow> snd (hook argc argv i1))
      in case Tcl_Main L argc' argv' (TCL_LOCAL_APPINIT_proc B L) i2 of
           None \<Rightarrow> None
         | Some i3 \<Rightarrow> Some (0, i3))"

subsection \<open>The platform stub table of \<open>tclPlatDecls.h\<close>\<close>

text \<open>The four functions the header declares (lines 47-78).\<close>

datatype platform_function =
    Tcl_WinUtfToTChar
  | Tcl_WinTCharToUtf
  | Tcl_MacOSXOpenBundleResources
  | Tcl_MacOSXOpenVersionedBundleResources

text \<open>
  \<open>struct TclPlatStubs\<close> (lines 80-92). A function pointer is the function it points
  to, \<open>None\<close> for \<open>NULL\<close>; \<open>'a\<close> stands for the arguments of a call and \<open>'r\<close> for what it
  returns. The two \<open>Win\<close> members exist in a Windows build only, the two \<open>MacOSX\<close>
  members in a build with \<open>MAC_OSX_TCL\<close> only.
\<close>

record ('a, 'r) TclPlatStubs =
  magic :: int
  hooks :: "nat option"
  tcl_WinUtfToTChar :: "('a \<Rightarrow> 'r) option"
  tcl_WinTCharToUtf :: "('a \<Rightarrow> 'r) option"
  tcl_MacOSXOpenBundleResources :: "('a \<Rightarrow> 'r) option"
  tcl_MacOSXOpenVersionedBundleResources :: "('a \<Rightarrow> 'r) option"

text \<open>
  The preprocessor symbols the header tests. \<open>WIN\<close> is
  \<^verbatim>\<open>defined(__WIN32__) || defined(__CYGWIN__)\<close>; \<open>already_defined f\<close> says that the
  includer has defined the name \<open>f\<close> as a macro before the header is read (each
  \<^verbatim>\<open>#define\<close> of lines 106-125 stands under an \<^verbatim>\<open>#ifndef\<close> of its own name).
\<close>

record decls_config =
  WIN :: bool
  MAC_OSX_TCL :: bool
  USE_TCL_STUBS :: bool
  USE_TCL_STUB_PROCS :: bool
  already_defined :: "platform_function \<Rightarrow> bool"

text \<open>Lines 47-78: which functions the header declares.\<close>

fun declared :: "decls_config \<Rightarrow> platform_function \<Rightarrow> bool" where
  "declared C Tcl_WinUtfToTChar = WIN C"
| "declared C Tcl_WinTCharToUtf = WIN C"
| "declared C Tcl_MacOSXOpenBundleResources = MAC_OSX_TCL C"
| "declared C Tcl_MacOSXOpenVersionedBundleResources = MAC_OSX_TCL C"

text \<open>Lines 100-127: the header defines the name as a macro.\<close>

definition stub_macro :: "decls_config \<Rightarrow> platform_function \<Rightarrow> bool" where
  "stub_macro C f \<longleftrightarrow>
     USE_TCL_STUBS C \<and> \<not> USE_TCL_STUB_PROCS C \<and> declared C f \<and> \<not> already_defined C f"

text \<open>The member each macro body names.\<close>

fun slot :: "platform_function \<Rightarrow> ('a, 'r) TclPlatStubs \<Rightarrow> ('a \<Rightarrow> 'r) option" where
  "slot Tcl_WinUtfToTChar = tcl_WinUtfToTChar"
| "slot Tcl_WinTCharToUtf = tcl_WinTCharToUtf"
| "slot Tcl_MacOSXOpenBundleResources = tcl_MacOSXOpenBundleResources"
| "slot Tcl_MacOSXOpenVersionedBundleResources = tcl_MacOSXOpenVersionedBundleResources"

text \<open>
  What a translation unit that includes the header is linked and loaded with: the
  functions the library exports under the four names, the value of the global
  \<open>tclPlatStubsPtr\<close> (line 94; \<open>None\<close> for \<open>NULL\<close>), and what a macro the includer defined
  earlier under one of the names does.
\<close>

record ('a, 'r) linkage =
  exported :: "platform_function \<Rightarrow> 'a \<Rightarrow> 'r"
  tclPlatStubsPtr :: "('a, 'r) TclPlatStubs option"
  earlier_macro :: "platform_function \<Rightarrow> 'a \<Rightarrow> 'r"

text \<open>
  The outcome of a call expression \<open>f(args)\<close>: a value, a call through a null pointer
  (the program has no defined behaviour), or a name the header has not declared.
\<close>

datatype 'r outcome = Returns 'r | Null_pointer | Not_declared

text \<open>\<^verbatim>\<open>(tclPlatStubsPtr->member)(args)\<close>\<close>

definition call_through_stub ::
  "('a, 'r) linkage \<Rightarrow> platform_function \<Rightarrow> 'a \<Rightarrow> 'r outcome" where
  "call_through_stub E f args =
     (case tclPlatStubsPtr E of
        None \<Rightarrow> Null_pointer
      | Some T \<Rightarrow>
          (case slot f T of
             None \<Rightarrow> Null_pointer
           | Some g \<Rightarrow> Returns (g args)))"

text \<open>The call \<open>f(args)\<close> after the preprocessor has read the header.\<close>

definition call_platform ::
  "decls_config \<Rightarrow> ('a, 'r) linkage \<Rightarrow> platform_function \<Rightarrow> 'a \<Rightarrow> 'r outcome" where
  "call_platform C E f args =
     (if already_defined C f then Returns (earlier_macro E f args)
      else if stub_macro C f then call_through_stub E f args
      else if declared C f then Returns (exported E f args)
      else Not_declared)"

subsection \<open>Reading a log\<close>

text \<open>The initialization routines a log shows, in the order of their calls.\<close>

fun init_procs :: "call list \<Rightarrow> package_init_proc list" where
  "init_procs [] = []"
| "init_procs (Init_call p r # cs) = p # init_procs cs"
| "init_procs (c # cs) = init_procs cs"

fun is_set_var :: "call \<Rightarrow> bool" where
  "is_set_var (Set_var_call n v f r) = True"
| "is_set_var c = False"

text \<open>The value \<open>tcl_rcFileName\<close> is set to (lines 162-166).\<close>

definition rc_file :: "'i build \<Rightarrow> string" where
  "rc_file B = (if DJGPP B then ''~/tclsh.rc'' else ''~/.tclshrc'')"


text \<open>
  The closed form of a run, used in the proofs below: the result and the log of
  \<open>Tcl_AppInit\<close> as a function of the values the library returns (\<open>s0\<close> to \<open>s4\<close> from the
  five routines, \<open>res\<close> from \<open>Tcl_SetVar\<close>). A value the run does not ask for is not
  used.
\<close>

definition outcome ::
  "'i build \<Rightarrow> 'i tcl \<Rightarrow> int \<Rightarrow> int \<Rightarrow> int \<Rightarrow> int \<Rightarrow> int \<Rightarrow> string option \<Rightarrow>
   int \<times> call list" where
  "outcome B L s0 s1 s2 s3 s4 res =
     (let E = TCL_ERROR L;
          rc = Set_var_call ''tcl_rcFileName'' (rc_file B) (TCL_GLOBAL_ONLY L) res;
          xt = (if TCL_XT_TEST B then [Init_call Tclxttest_Init s1] else [])
      in if s0 = E then (E, [Init_call Tcl_Init s0])
         else if \<not> TCL_TEST B then (TCL_OK L, [Init_call Tcl_Init s0, rc])
         else if TCL_XT_TEST B \<and> s1 = E then (E, Init_call Tcl_Init s0 # xt)
         else if s2 = E then (E, Init_call Tcl_Init s0 # xt @ [Init_call Tcltest_Init s2])
         else if s3 = E then
           (E, Init_call Tcl_Init s0 # xt @
               [Init_call Tcltest_Init s2,
                Static_package_call ''Tcltest'' Tcltest_Init None,
                Init_call TclObjTest_Init s3])
         else if s4 = E then
           (E, Init_call Tcl_Init s0 # xt @
               [Init_call Tcltest_Init s2,
                Static_package_call ''Tcltest'' Tcltest_Init None,
                Init_call TclObjTest_Init s3,
                Init_call Procbodytest_Init s4])
         else
           (TCL_OK L, Init_call Tcl_Init s0 # xt @
               [Init_call Tcltest_Init s2,
                Static_package_call ''Tcltest'' Tcltest_Init None,
                Init_call TclObjTest_Init s3,
                Init_call Procbodytest_Init s4,
                Static_package_call ''procbodytest'' Procbodytest_Init
                  (Some Procbodytest_SafeInit),
                rc]))"

subsection \<open>A library and builds to run the code on\<close>

text \<open>
  A library over a counter of the routines called: \<open>code p\<close> is what the routine \<open>p\<close>
  returns, \<open>sv\<close> what \<open>Tcl_SetVar\<close> returns, and \<open>Tcl_Main\<close> returns only when \<open>returns\<close>
  holds, after it has run the callback and added \<open>argc\<close> and the length of \<open>argv\<close>. The
  constants have the values of Tcl's \<open>tcl.h\<close>.
\<close>

definition example_tcl ::
  "(package_init_proc \<Rightarrow> int) \<Rightarrow> string option \<Rightarrow> bool \<Rightarrow> nat tcl" where
  "example_tcl code sv returns =
     \<lparr>TCL_OK = 0, TCL_ERROR = 1, TCL_GLOBAL_ONLY = 1,
      package_init = (\<lambda>p i. (code p, Suc i)),
      Tcl_StaticPackage = (\<lambda>i n p q. i),
      Tcl_SetVar = (\<lambda>i n v f. (sv, i)),
      XtToolkitInitialize = (\<lambda>i. i),
      Tcl_Main = (\<lambda>argc argv appinit i.
        if returns then Some (snd (appinit i) + nat argc + length argv) else None)\<rparr>"

definition example_build :: "bool \<Rightarrow> bool \<Rightarrow> bool \<Rightarrow> nat build" where
  "example_build t x d =
     \<lparr>TCL_TEST = t, TCL_XT_TEST = x, DJGPP = d,
      TCL_LOCAL_APPINIT = None, TCL_LOCAL_MAIN_HOOK = None\<rparr>"

definition fresh :: "nat world" where
  "fresh = \<lparr>interp = 0, calls = []\<rparr>"

text \<open>
  A Windows includer with stub indirection enabled, and a table whose first slot is
  null and whose second slot holds the exported function.
\<close>

definition example_config :: decls_config where
  "example_config =
     \<lparr>WIN = True, MAC_OSX_TCL = False, USE_TCL_STUBS = True, USE_TCL_STUB_PROCS = False,
      already_defined = (\<lambda>f. False)\<rparr>"

definition example_table :: "(nat, nat) TclPlatStubs" where
  "example_table =
     \<lparr>magic = 0, hooks = None,
      tcl_WinUtfToTChar = None,
      tcl_WinTCharToUtf = Some Suc,
      tcl_MacOSXOpenBundleResources = None,
      tcl_MacOSXOpenVersionedBundleResources = None\<rparr>"

definition example_linkage :: "(nat, nat) linkage" where
  "example_linkage =
     \<lparr>exported = (\<lambda>f n. Suc n),
      tclPlatStubsPtr = Some example_table,
      earlier_macro = (\<lambda>f n. n)\<rparr>"

text \<open>
  The interpreter as the initialization routines and the registrations of a build
  leave it when every routine is called, each on the interpreter the call before it
  left: the interpreter \<open>Tcl_SetVar\<close> is called on (lines 113-136).
\<close>

definition inits_done :: "'i build \<Rightarrow> 'i tcl \<Rightarrow> 'i \<Rightarrow> 'i" where
  "inits_done B L i =
     (let i0 = snd (package_init L Tcl_Init i)
      in if TCL_TEST B
         then
           (let i1 = (if TCL_XT_TEST B then snd (package_init L Tclxttest_Init i0) else i0);
                i2 = snd (package_init L Tcltest_Init i1);
                i3 = Tcl_StaticPackage L i2 ''Tcltest'' Tcltest_Init None;
                i4 = snd (package_init L TclObjTest_Init i3);
                i5 = snd (package_init L Procbodytest_Init i4)
            in Tcl_StaticPackage L i5 ''procbodytest'' Procbodytest_Init
                 (Some Procbodytest_SafeInit))
         else i0)"

text \<open>
  A library whose interpreter is the table of the global variables: the routines
  succeed and leave it alone, and \<open>Tcl_SetVar\<close> stores the value and returns it.
\<close>

definition store_tcl :: "(string \<rightharpoonup> string) tcl" where
  "store_tcl =
     \<lparr>TCL_OK = 0, TCL_ERROR = 1, TCL_GLOBAL_ONLY = 1,
      package_init = (\<lambda>p i. (0, i)),
      Tcl_StaticPackage = (\<lambda>i n p q. i),
      Tcl_SetVar = (\<lambda>i n v f. (Some v, i(n \<mapsto> v))),
      XtToolkitInitialize = (\<lambda>i. i),
      Tcl_Main = (\<lambda>argc argv appinit i. None)\<rparr>"

definition store_build :: "(string \<rightharpoonup> string) build" where
  "store_build =
     \<lparr>TCL_TEST = True, TCL_XT_TEST = False, DJGPP = False,
      TCL_LOCAL_APPINIT = None, TCL_LOCAL_MAIN_HOOK = None\<rparr>"

section \<open>Properties of \<open>Tcl_AppInit\<close>\<close>

lemmas Tcl_AppInit_unfold =
  Tcl_AppInit_def ifdef_def init_or_return_def static_package_def set_var_def

text \<open>
  Every run from an empty log is an instance of the closed form: the values are the
  ones the library returns along the run.
\<close>

lemma Tcl_AppInit_outcome:
  assumes run: "Tcl_AppInit B L w = (r, w')" and empty: "calls w = []"
  obtains s0 s1 s2 s3 s4 res where "(r, calls w') = outcome B L s0 s1 s2 s3 s4 res"
proof -
  define c0 where "c0 = package_init L Tcl_Init (interp w)"
  define c1 where "c1 = package_init L Tclxttest_Init (snd c0)"
  define i1 where "i1 = (if TCL_XT_TEST B then snd c1 else snd c0)"
  define c2 where "c2 = package_init L Tcltest_Init i1"
  define c3 where "c3 = package_init L TclObjTest_Init
     (Tcl_StaticPackage L (snd c2) ''Tcltest'' Tcltest_Init None)"
  define c4 where "c4 = package_init L Procbodytest_Init (snd c3)"
  define i5 where "i5 = (if TCL_TEST B
     then Tcl_StaticPackage L (snd c4) ''procbodytest'' Procbodytest_Init
            (Some Procbodytest_SafeInit)
     else snd c0)"
  define c5 where "c5 = Tcl_SetVar L i5 ''tcl_rcFileName'' (rc_file B) (TCL_GLOBAL_ONLY L)"
  have "(fst (Tcl_AppInit B L w), calls (snd (Tcl_AppInit B L w))) =
      outcome B L (fst c0) (fst c1) (fst c2) (fst c3) (fst c4) (fst c5)"
    unfolding Tcl_AppInit_unfold outcome_def rc_file_def
      c0_def c1_def c2_def c3_def c4_def c5_def i1_def i5_def
    by (simp add: Let_def case_prod_beta empty)
  with run show thesis
    by (intro that [of "fst c0" "fst c1" "fst c2" "fst c3" "fst c4" "fst c5"]) simp
qed

text \<open>What the example library does on the example builds.\<close>

lemma example_run_TclObjTest_fails:
  "Tcl_AppInit (example_build True False False)
     (example_tcl (\<lambda>p. if p = TclObjTest_Init then 1 else 0) (Some ''~/.tclshrc'') False)
     fresh =
   (1, \<lparr>interp = 3,
        calls = [Init_call Tcl_Init 0, Init_call Tcltest_Init 0,
                 Static_package_call ''Tcltest'' Tcltest_Init None,
                 Init_call TclObjTest_Init 1]\<rparr>)"
  by (simp add: Tcl_AppInit_unfold Let_def example_build_def example_tcl_def fresh_def)


lemma example_run_plain:
  "Tcl_AppInit (example_build False False True)
     (example_tcl (\<lambda>p. 0) (Some ''~/tclsh.rc'') False) fresh =
   (0, \<lparr>interp = 1,
        calls = [Init_call Tcl_Init 0,
                 Set_var_call ''tcl_rcFileName'' ''~/tclsh.rc'' 1 (Some ''~/tclsh.rc'')]\<rparr>)"
  by (simp add: Tcl_AppInit_unfold Let_def example_build_def example_tcl_def fresh_def)


text \<open>
  C1. When an initialization routine that \<open>Tcl_AppInit\<close> calls returns \<open>TCL_ERROR\<close>,
  \<open>Tcl_AppInit\<close> returns \<open>TCL_ERROR\<close> and that call is the last library call it makes:
  no later routine is invoked, \<open>Tcl_SetVar\<close> is not called, and no routine is called a
  second time.
\<close>

theorem Tcl_AppInit_stops_at_first_failure:
  assumes "Tcl_AppInit B L w = (r, w')" and "calls w = []"
    and "Init_call p (TCL_ERROR L) \<in> set (calls w')"
  shows "r = TCL_ERROR L \<and>
    last (calls w') = Init_call p (TCL_ERROR L) \<and>
    filter is_set_var (calls w') = [] \<and>
    distinct (init_procs (calls w'))"
proof -
  from assms(1,2) obtain s0 s1 s2 s3 s4 res
    where "(r, calls w') = outcome B L s0 s1 s2 s3 s4 res"
    by (rule Tcl_AppInit_outcome)
  with assms(3) show ?thesis
    by (auto simp: outcome_def Let_def split: if_splits)
qed

theorem Tcl_AppInit_stops_at_first_failure_witness:
  "Tcl_AppInit (example_build True False False)
     (example_tcl (\<lambda>p. if p = TclObjTest_Init then 1 else 0) (Some ''~/.tclshrc'') False)
     fresh =
   (1, \<lparr>interp = 3,
        calls = [Init_call Tcl_Init 0, Init_call Tcltest_Init 0,
                 Static_package_call ''Tcltest'' Tcltest_Init None,
                 Init_call TclObjTest_Init 1]\<rparr>) \<and>
   calls fresh = [] \<and>
   last [Init_call Tcl_Init 0, Init_call Tcltest_Init 0,
         Static_package_call ''Tcltest'' Tcltest_Init None,
         Init_call TclObjTest_Init 1] = Init_call TclObjTest_Init 1 \<and>
   distinct (init_procs [Init_call Tcl_Init 0, Init_call Tcltest_Init 0,
         Static_package_call ''Tcltest'' Tcltest_Init None,
         Init_call TclObjTest_Init 1])"
proof -
  let ?L = "example_tcl (\<lambda>p. if p = TclObjTest_Init then 1 else 0) (Some ''~/.tclshrc'') False"
  note run = example_run_TclObjTest_fails
  have empty: "calls fresh = []"
    by (simp add: fresh_def)
  have failed: "Init_call TclObjTest_Init (TCL_ERROR ?L) \<in>
      set (calls \<lparr>interp = 3::nat,
        calls = [Init_call Tcl_Init 0, Init_call Tcltest_Init 0,
                 Static_package_call ''Tcltest'' Tcltest_Init None,
                 Init_call TclObjTest_Init 1]\<rparr>)"
    by (simp add: example_tcl_def)
  from Tcl_AppInit_stops_at_first_failure [OF run empty failed] run empty
  show ?thesis by (simp add: example_tcl_def)
qed



text \<open>
  C3. When none of the initialization routines \<open>Tcl_AppInit\<close> calls returns
  \<open>TCL_ERROR\<close>, \<open>Tcl_AppInit\<close> returns \<open>TCL_OK\<close>, and it calls \<open>Tcl_SetVar\<close> exactly once,
  as its last library call, on the variable \<open>tcl_rcFileName\<close> of the interpreter the
  routines have left: the interpreter \<open>Tcl_AppInit\<close> leaves is the one that call of
  \<open>Tcl_SetVar\<close> returned.
\<close>

theorem Tcl_AppInit_success:
  assumes "Tcl_AppInit B L w = (r, w')" and "calls w = []"
    and "\<forall>p. Init_call p (TCL_ERROR L) \<notin> set (calls w')"
  shows "r = TCL_OK L \<and>
    (\<exists>res.
      Tcl_SetVar L (inits_done B L (interp w)) ''tcl_rcFileName'' (rc_file B)
        (TCL_GLOBAL_ONLY L) = (res, interp w') \<and>
      filter is_set_var (calls w') =
        [Set_var_call ''tcl_rcFileName'' (rc_file B) (TCL_GLOBAL_ONLY L) res] \<and>
      last (calls w') =
        Set_var_call ''tcl_rcFileName'' (rc_file B) (TCL_GLOBAL_ONLY L) res)"
  using assms unfolding Tcl_AppInit_unfold rc_file_def inits_done_def
  by (auto simp: Let_def split: prod.splits if_splits)

theorem Tcl_AppInit_success_witness:
  "Tcl_AppInit store_build store_tcl \<lparr>interp = Map.empty, calls = []\<rparr> =
   (0, \<lparr>interp = [''tcl_rcFileName'' \<mapsto> ''~/.tclshrc''],
        calls = [Init_call Tcl_Init 0, Init_call Tcltest_Init 0,
                 Static_package_call ''Tcltest'' Tcltest_Init None,
                 Init_call TclObjTest_Init 0, Init_call Procbodytest_Init 0,
                 Static_package_call ''procbodytest'' Procbodytest_Init
                   (Some Procbodytest_SafeInit),
                 Set_var_call ''tcl_rcFileName'' ''~/.tclshrc'' 1 (Some ''~/.tclshrc'')]\<rparr>) \<and>
   (\<forall>p. Init_call p (TCL_ERROR store_tcl) \<notin>
      set [Init_call Tcl_Init 0, Init_call Tcltest_Init 0,
           Static_package_call ''Tcltest'' Tcltest_Init None,
           Init_call TclObjTest_Init 0, Init_call Procbodytest_Init 0,
           Static_package_call ''procbodytest'' Procbodytest_Init
             (Some Procbodytest_SafeInit),
           Set_var_call ''tcl_rcFileName'' ''~/.tclshrc'' 1 (Some ''~/.tclshrc'')]) \<and>
   TCL_OK store_tcl = 0 \<and>
   inits_done store_build store_tcl Map.empty = Map.empty \<and>
   Tcl_SetVar store_tcl Map.empty ''tcl_rcFileName'' (rc_file store_build)
     (TCL_GLOBAL_ONLY store_tcl) =
     (Some ''~/.tclshrc'', [''tcl_rcFileName'' \<mapsto> ''~/.tclshrc''])"
proof -
  let ?w = "\<lparr>interp = Map.empty :: string \<rightharpoonup> string, calls = []\<rparr>"
  let ?cs = "[Init_call Tcl_Init 0, Init_call Tcltest_Init 0,
                 Static_package_call ''Tcltest'' Tcltest_Init None,
                 Init_call TclObjTest_Init 0, Init_call Procbodytest_Init 0,
                 Static_package_call ''procbodytest'' Procbodytest_Init
                   (Some Procbodytest_SafeInit),
                 Set_var_call ''tcl_rcFileName'' ''~/.tclshrc'' 1 (Some ''~/.tclshrc'')]"
  let ?w' = "\<lparr>interp = [''tcl_rcFileName'' \<mapsto> ''~/.tclshrc''], calls = ?cs\<rparr>"
  have run: "Tcl_AppInit store_build store_tcl ?w = (0, ?w')"
    by (simp add: Tcl_AppInit_unfold Let_def store_build_def store_tcl_def)
  have empty: "calls ?w = []"
    by simp
  have ok: "\<forall>p. Init_call p (TCL_ERROR store_tcl) \<notin> set (calls ?w')"
    by (simp add: store_tcl_def)
  have before: "inits_done store_build store_tcl Map.empty = Map.empty"
    by (simp add: inits_done_def store_build_def store_tcl_def)
  have rc: "rc_file store_build = ''~/.tclshrc''"
    by (simp add: rc_file_def store_build_def)
  from Tcl_AppInit_success [OF run empty ok] run ok before rc
  show ?thesis by (simp add: store_tcl_def)
qed



text \<open>The code \<open>Tcl_AppInit\<close> returns does not depend on \<open>Tcl_SetVar\<close> at all.\<close>

lemma Tcl_AppInit_status_ignores_Tcl_SetVar:
  "fst (Tcl_AppInit B (L\<lparr>Tcl_SetVar := sv\<rparr>) w) = fst (Tcl_AppInit B L w)"
  unfolding Tcl_AppInit_unfold
  by (simp add: Let_def case_prod_beta)



section \<open>Properties of \<open>main\<close>\<close>

text \<open>
  C4. With no local main hook, \<open>main\<close> is the call of \<open>Tcl_Main\<close> on the \<open>argc\<close> and
  \<open>argv\<close> it received and on the application-init callback, followed by \<^verbatim>\<open>return 0\<close>;
  the callback is \<open>Tcl_AppInit\<close> when \<open>TCL_LOCAL_APPINIT\<close> is not defined. The arguments
  reach nothing else.
\<close>

theorem main_forwards_arguments:
  assumes "TCL_LOCAL_MAIN_HOOK B = None"
  shows "main B L argc argv i =
      (case Tcl_Main L argc argv (TCL_LOCAL_APPINIT_proc B L)
              (if TCL_XT_TEST B then XtToolkitInitialize L i else i) of
         None \<Rightarrow> None
       | Some i' \<Rightarrow> Some (0, i')) \<and>
    (TCL_LOCAL_APPINIT B = None \<longrightarrow> TCL_LOCAL_APPINIT_proc B L = Tcl_AppInit_proc B L)"
  using assms by (simp add: main_def TCL_LOCAL_APPINIT_proc_def)

theorem main_forwards_arguments_witness:
  "TCL_LOCAL_MAIN_HOOK (example_build False False False) = None \<and>
   TCL_LOCAL_APPINIT (example_build False False False) = None \<and>
   main (example_build False False False) (example_tcl (\<lambda>p. 0) (Some ''~/.tclshrc'') True)
     2 [''tclsh'', ''script.tcl''] 0 = Some (0, 5) \<and>
   Tcl_Main (example_tcl (\<lambda>p. 0) (Some ''~/.tclshrc'') True) 2 [''tclsh'', ''script.tcl'']
     (Tcl_AppInit_proc (example_build False False False)
        (example_tcl (\<lambda>p. 0) (Some ''~/.tclshrc'') True)) 0 = Some 5"
proof -
  let ?B = "example_build False False False"
  let ?L = "example_tcl (\<lambda>p. 0) (Some ''~/.tclshrc'') True"
  have hook: "TCL_LOCAL_MAIN_HOOK ?B = None" and appinit: "TCL_LOCAL_APPINIT ?B = None"
    by (simp_all add: example_build_def)
  have xt: "\<not> TCL_XT_TEST ?B"
    by (simp add: example_build_def)
  have "Tcl_AppInit_proc ?B ?L 0 = (0, 1)"
    by (simp add: Tcl_AppInit_proc_def Tcl_AppInit_unfold Let_def example_build_def
        example_tcl_def)
  then have tcl_main: "Tcl_Main ?L 2 [''tclsh'', ''script.tcl''] (Tcl_AppInit_proc ?B ?L) 0 = Some 5"
    by (simp add: example_tcl_def)
  from main_forwards_arguments [OF hook, of ?L 2 "[''tclsh'', ''script.tcl'']" 0]
    hook appinit xt tcl_main
  show ?thesis by simp
qed

text \<open>
  C5. When \<open>Tcl_Main\<close> never returns, \<open>main\<close> does not return either: the final
  \<^verbatim>\<open>return 0\<close> is not reached.
\<close>

theorem main_never_returns:
  assumes "\<forall>argc argv appinit i. Tcl_Main L argc argv appinit i = None"
  shows "main B L argc argv i = None"
  using assms by (simp add: main_def Let_def split: prod.splits)

theorem main_never_returns_witness:
  "(\<forall>argc argv appinit i.
      Tcl_Main (example_tcl (\<lambda>p. 0) (Some ''~/.tclshrc'') False) argc argv appinit i = None) \<and>
   main (example_build False False False) (example_tcl (\<lambda>p. 0) (Some ''~/.tclshrc'') False)
     1 [''tclsh''] 0 = None"
proof -
  let ?L = "example_tcl (\<lambda>p. 0) (Some ''~/.tclshrc'') False"
  have never: "\<forall>argc argv appinit i. Tcl_Main ?L argc argv appinit i = None"
    by (simp add: example_tcl_def)
  from main_never_returns [OF never, of "example_build False False False" 1 "[''tclsh'']" 0]
    never
  show ?thesis by simp
qed



section \<open>Properties of the stub macros\<close>

text \<open>
  C8, as the header has it. When stub indirection is enabled for a function the
  header declares, and the includer has not defined the name itself, a call of the
  function is the call through the slot of the table \<open>tclPlatStubsPtr\<close> points to. It
  gives what the directly linked call gives when the slot holds the function the
  library exports.
\<close>

theorem stub_call_is_indirect_call:
  assumes "USE_TCL_STUBS C" and "\<not> USE_TCL_STUB_PROCS C"
    and "declared C f" and "\<not> already_defined C f"
  shows "call_platform C E f args = call_through_stub E f args \<and>
    (tclPlatStubsPtr E = Some T \<and> slot f T = Some (exported E f) \<longrightarrow>
       call_platform C E f args = call_platform (C\<lparr>USE_TCL_STUBS := False\<rparr>) E f args)"
proof -
  have stub: "call_platform C E f args = call_through_stub E f args"
    using assms by (simp add: call_platform_def stub_macro_def)
  have direct: "call_platform (C\<lparr>USE_TCL_STUBS := False\<rparr>) E f args =
      Returns (exported E f args)"
    using assms(3,4) by (cases f) (simp_all add: call_platform_def stub_macro_def)
  show ?thesis
    by (simp add: stub direct call_through_stub_def)
qed

theorem stub_call_is_indirect_call_witness:
  "USE_TCL_STUBS example_config \<and> \<not> USE_TCL_STUB_PROCS example_config \<and>
   declared example_config Tcl_WinTCharToUtf \<and>
   \<not> already_defined example_config Tcl_WinTCharToUtf \<and>
   tclPlatStubsPtr example_linkage = Some example_table \<and>
   slot Tcl_WinTCharToUtf example_table = Some (exported example_linkage Tcl_WinTCharToUtf) \<and>
   call_platform example_config example_linkage Tcl_WinTCharToUtf 7 = Returns 8 \<and>
   call_through_stub example_linkage Tcl_WinTCharToUtf 7 = Returns 8 \<and>
   call_platform (example_config\<lparr>USE_TCL_STUBS := False\<rparr>) example_linkage
     Tcl_WinTCharToUtf 7 = Returns 8"
proof -
  have h: "USE_TCL_STUBS example_config" "\<not> USE_TCL_STUB_PROCS example_config"
    "declared example_config Tcl_WinTCharToUtf"
    "\<not> already_defined example_config Tcl_WinTCharToUtf"
    by (simp_all add: example_config_def)
  have table: "tclPlatStubsPtr example_linkage = Some example_table"
    by (simp add: example_linkage_def)
  have same: "slot Tcl_WinTCharToUtf example_table =
      Some (exported example_linkage Tcl_WinTCharToUtf)"
    by (simp add: example_linkage_def example_table_def)
  have through: "call_through_stub example_linkage Tcl_WinTCharToUtf 7 = Returns 8"
    by (simp add: call_through_stub_def example_linkage_def example_table_def)
  from stub_call_is_indirect_call [OF h, of example_linkage 7 example_table]
    h table same through
  show ?thesis by auto
qed

text \<open>
  C8 without that condition on the slot fails: through a table whose slot is null the
  stub form of the call is a call through a null pointer, while the directly linked
  form returns.
\<close>

theorem stub_call_counterexample:
  "call_platform example_config example_linkage Tcl_WinUtfToTChar 7 \<noteq>
   call_platform (example_config\<lparr>USE_TCL_STUBS := False\<rparr>) example_linkage
     Tcl_WinUtfToTChar 7"
  by (simp add: call_platform_def stub_macro_def call_through_stub_def
      example_config_def example_linkage_def example_table_def)

end
